theory Spec2Isabelle
  imports Complex_Main "HOL-Library.Log_Nat"
begin

section \<open>The Cat\<close>

text \<open>
  \<^verbatim>\<open>app.ts\<close> imports the class \<^verbatim>\<open>Cat\<close> from \<^verbatim>\<open>./Cat.js\<close>, which is not among the
  source files. The definitions of this section follow the specification's description
  of that class (sections 3, 4.2 and 8).
\<close>

text \<open>
  Modelled from the spec: the entity \<^verbatim>\<open>Cat\<close> of the missing \<^verbatim>\<open>Cat.js\<close>: three integer
  attributes bounded by [0, 100] and the aliveness flag. \<open>hunger\<close> is the
  hunger-satisfaction value: feeding raises it, neglect lowers it, 0 is starvation.
\<close>

record Cat =
  energy :: int
  hunger :: int
  mood :: int
  alive :: bool

text \<open>
  Modelled from the spec: the "fixed amounts" of the mutators of \<^verbatim>\<open>Cat.js\<close>. The
  specification gives none of their values, so they are parameters.
\<close>

record amounts =
  feedAmount :: int
  playMoodAmount :: int
  playEnergyAmount :: int
  sleepAmount :: int
  hungerDecay :: int
  energyDecay :: int
  moodDecay :: int

text \<open>Modelled from the spec: clamping of an attribute of \<^verbatim>\<open>Cat.js\<close> to its bounds [0, 100].\<close>

definition clamp :: "int \<Rightarrow> int" where
  "clamp v = max 0 (min 100 v)"

text \<open>
  Modelled from the spec: the constructor of \<^verbatim>\<open>Cat.js\<close>: "created once at program start
  with default mid-range values" (hunger = 50, energy = 50, mood = 50 in section 8), alive.
\<close>

definition newCat :: Cat where
  "newCat = \<lparr>energy = 50, hunger = 50, mood = 50, alive = True\<rparr>"

text \<open>Modelled from the spec: \<^verbatim>\<open>isAlive()\<close> of \<^verbatim>\<open>Cat.js\<close>, the aliveness flag.\<close>

definition isAlive :: "Cat \<Rightarrow> bool" where
  "isAlive c = alive c"

text \<open>Modelled from the spec: the accessors of \<^verbatim>\<open>Cat.js\<close>; no side effects.\<close>

definition getEnergy :: "Cat \<Rightarrow> int" where
  "getEnergy c = energy c"

definition getHunger :: "Cat \<Rightarrow> int" where
  "getHunger c = hunger c"

definition getMood :: "Cat \<Rightarrow> int" where
  "getMood c = mood c"

text \<open>
  Modelled from the spec: the ALIVE to DEAD transition of \<^verbatim>\<open>Cat.js\<close>, which "fires inside
  ignore() or a mutator when a monitored attribute reaches its death threshold"; the
  thresholds the specification names are "hunger or energy bottoming out at 0".
\<close>

definition checkDeath :: "Cat \<Rightarrow> Cat" where
  "checkDeath c = (if hunger c \<le> 0 \<or> energy c \<le> 0 then c\<lparr>alive := False\<rparr> else c)"

text \<open>
  Modelled from the spec: \<^verbatim>\<open>feed()\<close> of \<^verbatim>\<open>Cat.js\<close>: "increases hunger-satisfaction by a
  fixed amount, clamped to bounds. No effect if not alive."
\<close>

definition feed :: "amounts \<Rightarrow> Cat \<Rightarrow> Cat" where
  "feed A c =
     (if alive c then checkDeath (c\<lparr>hunger := clamp (hunger c + feedAmount A)\<rparr>) else c)"

text \<open>
  Modelled from the spec: \<^verbatim>\<open>play()\<close> of \<^verbatim>\<open>Cat.js\<close>: "increases mood by a fixed amount and
  decreases energy by a fixed amount, both clamped. No effect if not alive."
\<close>

definition play :: "amounts \<Rightarrow> Cat \<Rightarrow> Cat" where
  "play A c =
     (if alive c
      then checkDeath (c\<lparr>mood := clamp (mood c + playMoodAmount A),
                         energy := clamp (energy c - playEnergyAmount A)\<rparr>)
      else c)"

text \<open>
  Modelled from the spec: \<^verbatim>\<open>sleep()\<close> of \<^verbatim>\<open>Cat.js\<close>: "increases energy by a fixed amount,
  clamped. No effect if not alive."
\<close>

definition sleep :: "amounts \<Rightarrow> Cat \<Rightarrow> Cat" where
  "sleep A c =
     (if alive c then checkDeath (c\<lparr>energy := clamp (energy c + sleepAmount A)\<rparr>) else c)"

text \<open>
  Modelled from the spec: \<^verbatim>\<open>ignore()\<close> of \<^verbatim>\<open>Cat.js\<close>: "applies passive decay: hunger
  worsens, energy drains, mood drops, by fixed per-tick deltas, clamped"; like every
  mutator it is a no-op once the Cat is dead.
\<close>

definition ignore :: "amounts \<Rightarrow> Cat \<Rightarrow> Cat" where
  "ignore A c =
     (if alive c
      then checkDeath (c\<lparr>hunger := clamp (hunger c - hungerDecay A),
                         energy := clamp (energy c - energyDecay A),
                         mood := clamp (mood c - moodDecay A)\<rparr>)
      else c)"

text \<open>Sequences of mutator calls on one Cat.\<close>

datatype mutator = Feed | Play | Sleep | Ignore

fun mutate :: "amounts \<Rightarrow> mutator \<Rightarrow> Cat \<Rightarrow> Cat" where
  "mutate A Feed c = feed A c"
| "mutate A Play c = play A c"
| "mutate A Sleep c = sleep A c"
| "mutate A Ignore c = ignore A c"

fun run :: "amounts \<Rightarrow> mutator list \<Rightarrow> Cat \<Rightarrow> Cat" where
  "run A [] c = c"
| "run A (m # ms) c = run A ms (mutate A m c)"

text \<open>\<open>ignores A n c\<close> is the Cat after \<open>n\<close> calls of \<^verbatim>\<open>ignore()\<close> and nothing else.\<close>

fun ignores :: "amounts \<Rightarrow> nat \<Rightarrow> Cat \<Rightarrow> Cat" where
  "ignores A 0 c = c"
| "ignores A (Suc n) c = ignore A (ignores A n c)"

text \<open>The range invariant of the data model: every attribute lies in [0, 100].\<close>

definition in_range :: "Cat \<Rightarrow> bool" where
  "in_range c \<longleftrightarrow>
     0 \<le> energy c \<and> energy c \<le> 100 \<and> 0 \<le> hunger c \<and> hunger c \<le> 100 \<and>
     0 \<le> mood c \<and> mood c \<le> 100"

text \<open>Amounts and a Cat used to evaluate the model: every amount is 1.\<close>

definition unitAmounts :: amounts where
  "unitAmounts = \<lparr>feedAmount = 1, playMoodAmount = 1, playEnergyAmount = 1, sleepAmount = 1,
     hungerDecay = 1, energyDecay = 1, moodDecay = 1\<rparr>"

definition hungryCat :: Cat where
  "hungryCat = \<lparr>energy = 100, hunger = 1, mood = 100, alive = True\<rparr>"

section \<open>The KeyListener\<close>

text \<open>
  \<^verbatim>\<open>app.ts\<close> imports the class \<^verbatim>\<open>KeyListener\<close> from \<^verbatim>\<open>./KeyListener.js\<close>, which is not
  among the source files either. The definitions of this section follow the
  specification (sections 3 and 4.1).
\<close>

text \<open>
  Modelled from the spec: the key codes of \<^verbatim>\<open>KeyListener.js\<close>. The monitored keys are F,
  P and S, which \<^verbatim>\<open>app.ts\<close> names \<^verbatim>\<open>KeyListener.KEY_F\<close>, \<^verbatim>\<open>KEY_P\<close> and \<^verbatim>\<open>KEY_S\<close>; every
  other code is \<open>OtherKey n\<close>.
\<close>

datatype key = KEY_F | KEY_P | KEY_S | OtherKey nat

fun monitored :: "key \<Rightarrow> bool" where
  "monitored KEY_F = True"
| "monitored KEY_P = True"
| "monitored KEY_S = True"
| "monitored (OtherKey n) = False"

text \<open>
  Modelled from the spec: the state of \<^verbatim>\<open>KeyListener.js\<close>, "a mapping from key code to
  boolean: is currently held down".
\<close>

type_synonym KeyListener = "key \<Rightarrow> bool"

text \<open>Modelled from the spec: the constructor of \<^verbatim>\<open>KeyListener.js\<close>; no key is held.\<close>

definition newKeyListener :: KeyListener where
  "newKeyListener = (\<lambda>code. False)"

text \<open>
  Modelled from the spec: the key-down and key-up subscriptions of \<^verbatim>\<open>KeyListener.js\<close>,
  which track "a fixed set of monitored keys": "on key-down sets the corresponding flag
  true, on key-up sets it false".
\<close>

definition keyDown :: "key \<Rightarrow> KeyListener \<Rightarrow> KeyListener" where
  "keyDown code L = (if monitored code then L(code := True) else L)"

definition keyUp :: "key \<Rightarrow> KeyListener \<Rightarrow> KeyListener" where
  "keyUp code L = (if monitored code then L(code := False) else L)"

text \<open>
  Modelled from the spec: \<^verbatim>\<open>isKeyDown(code)\<close> of \<^verbatim>\<open>KeyListener.js\<close>: "returns current held
  state for code; never fails".
\<close>

definition isKeyDown :: "KeyListener \<Rightarrow> key \<Rightarrow> bool" where
  "isKeyDown L code = L code"

text \<open>Sequences of key events delivered to one KeyListener.\<close>

datatype keyEvent = Down key | Up key

fun handleKey :: "keyEvent \<Rightarrow> KeyListener \<Rightarrow> KeyListener" where
  "handleKey (Down code) L = keyDown code L"
| "handleKey (Up code) L = keyUp code L"

fun keyEvents :: "keyEvent list \<Rightarrow> KeyListener \<Rightarrow> KeyListener" where
  "keyEvents [] L = L"
| "keyEvents (e # es) L = keyEvents es (handleKey e L)"

section \<open>JavaScript numbers\<close>

text \<open>
  A timestamp is a JavaScript number, an IEEE 754 double. \<open>Double m e\<close> is the number
  \<open>m * 2 ^ e\<close>; the doubles are those with \<open>\<bar>m\<bar> < 2 ^ 53\<close> and \<open>- 1074 \<le> e \<le> 971\<close>. The
  sign of a zero is not kept: it has no bearing on a difference compared with 3000.
\<close>

datatype number = Double int int | PosInfinity | NegInfinity | NaN

text \<open>The number of an integer literal; it is exact below \<open>2 ^ 53\<close>.\<close>

definition num :: "int \<Rightarrow> number" where
  "num i = Double i 0"

text \<open>
  Rounding to the nearest double, ties to the even mantissa. \<open>roundShift a s\<close> drops
  the last \<open>s\<close> bits of \<open>a\<close>. \<open>round64 m e\<close> rounds \<open>m * 2 ^ e\<close>: it keeps 53 bits, fewer
  where the exponent would fall below that of the subnormal numbers, and overflows to
  an infinity from \<open>2 ^ 1024\<close> on.
\<close>

definition roundShift :: "nat \<Rightarrow> nat \<Rightarrow> nat" where
  "roundShift a s =
     (let q = a div 2 ^ s; r = a mod 2 ^ s
      in if 2 * r > 2 ^ s \<or> (2 * r = 2 ^ s \<and> odd q) then q + 1 else q)"

definition round64 :: "int \<Rightarrow> int \<Rightarrow> number" where
  "round64 m e =
     (let a = nat \<bar>m\<bar>;
          s = nat (max (bitlen (int a) - 53) (- 1074 - e));
          a' = roundShift a s;
          e' = e + int s
      in if a' \<noteq> 0 \<and> bitlen (int a') + e' > 1024
         then (if m < 0 then NegInfinity else PosInfinity)
         else Double (sgn m * int a') e')"

text \<open>The operators \<^verbatim>\<open>-\<close> and \<^verbatim>\<open>>=\<close> of JavaScript on numbers.\<close>

fun num_sub :: "number \<Rightarrow> number \<Rightarrow> number" where
  "num_sub NaN y = NaN"
| "num_sub x NaN = NaN"
| "num_sub PosInfinity PosInfinity = NaN"
| "num_sub PosInfinity y = PosInfinity"
| "num_sub NegInfinity NegInfinity = NaN"
| "num_sub NegInfinity y = NegInfinity"
| "num_sub (Double m e) PosInfinity = NegInfinity"
| "num_sub (Double m e) NegInfinity = PosInfinity"
| "num_sub (Double m1 e1) (Double m2 e2) =
     (let e = min e1 e2
      in round64 (m1 * 2 ^ nat (e1 - e) - m2 * 2 ^ nat (e2 - e)) e)"

fun num_ge :: "number \<Rightarrow> number \<Rightarrow> bool" where
  "num_ge NaN y = False"
| "num_ge x NaN = False"
| "num_ge PosInfinity y = True"
| "num_ge x NegInfinity = True"
| "num_ge NegInfinity y = False"
| "num_ge x PosInfinity = False"
| "num_ge (Double m1 e1) (Double m2 e2) =
     (let e = min e1 e2
      in m1 * 2 ^ nat (e1 - e) \<ge> m2 * 2 ^ nat (e2 - e))"

section \<open>The controller: \<^verbatim>\<open>src/src/app.ts\<close>\<close>

text \<open>
  The controller uses the two imported classes only through their methods, so the model
  takes these as a parameter: a record of the methods of \<^verbatim>\<open>Cat\<close> (over any type \<open>'c\<close>
  of Cat states) and of \<^verbatim>\<open>KeyListener\<close> (over any type \<open>'k\<close>). The mutators of the
  Cat change the Cat only, and \<^verbatim>\<open>isAlive\<close>, the accessors and \<^verbatim>\<open>isKeyDown\<close> change
  nothing. What is proved about the controller holds for every such implementation of
  the two classes.
\<close>

record ('c, 'k) imported =
  cat_new :: 'c
  cat_isAlive :: "'c \<Rightarrow> bool"
  cat_ignore :: "'c \<Rightarrow> 'c"
  cat_feed :: "'c \<Rightarrow> 'c"
  cat_play :: "'c \<Rightarrow> 'c"
  cat_sleep :: "'c \<Rightarrow> 'c"
  cat_getEnergy :: "'c \<Rightarrow> int"
  cat_getHunger :: "'c \<Rightarrow> int"
  cat_getMood :: "'c \<Rightarrow> int"
  keyListener_new :: 'k
  keyListener_isKeyDown :: "'k \<Rightarrow> key \<Rightarrow> bool"

text \<open>
  What the controller does to the outside is recorded in two places. \<open>painted\<close> is the
  content of the drawing surface: the drawing operations issued since it was last
  cleared (the background image is taken to be loading or loaded, so that drawing it
  does not throw).
  \<open>calls\<close> is the sequence of calls the controller has made, each recorded at its call
  site: the methods of the Cat, \<^verbatim>\<open>gameTick\<close>, \<^verbatim>\<open>updateDisplays\<close> and
  \<^verbatim>\<open>requestAnimationFrame\<close>.
\<close>

datatype draw =
  DrawImage real real real real
| FillText string int real real nat string string

datatype call =
  GameTick | CatIgnore | CatFeed | CatPlay | CatSleep | UpdateDisplays | RequestAnimationFrame

text \<open>
  The fields of the class \<^verbatim>\<open>Catagotchi\<close>. Of the canvas its width and height are kept,
  of the background image its width (0 until the image has loaded). Timestamps are
  \<^verbatim>\<open>DOMHighResTimeStamp\<close>s, that is JavaScript numbers.
\<close>

record ('c, 'k) Catagotchi =
  canvas_width :: real
  canvas_height :: real
  background_width :: real
  painted :: "draw list"
  cat :: 'c
  keyListener :: 'k
  lastTickTimeStamp :: number
  calls :: "call list"

text \<open>A call \<^verbatim>\<open>this.cat.m()\<close> of a mutator \<open>m\<close> of the Cat.\<close>

definition callCat ::
  "call \<Rightarrow> ('c \<Rightarrow> 'c) \<Rightarrow> ('c, 'k) Catagotchi \<Rightarrow> ('c, 'k) Catagotchi" where
  "callCat e m g = g\<lparr>cat := m (cat g), calls := calls g @ [e]\<rparr>"

definition executeUserAction ::
  "('c, 'k) imported \<Rightarrow> ('c, 'k) Catagotchi \<Rightarrow> ('c, 'k) Catagotchi" where
  "executeUserAction D g =
     (let g1 = (if keyListener_isKeyDown D (keyListener g) KEY_F
                then callCat CatFeed (cat_feed D) g else g);
          g2 = (if keyListener_isKeyDown D (keyListener g1) KEY_P
                then callCat CatPlay (cat_play D) g1 else g1);
          g3 = (if keyListener_isKeyDown D (keyListener g2) KEY_S
                then callCat CatSleep (cat_sleep D) g2 else g2)
      in g3)"

definition clearScreen :: "('c, 'k) Catagotchi \<Rightarrow> ('c, 'k) Catagotchi" where
  "clearScreen g = g\<lparr>painted := []\<rparr>"

text \<open>
  \<^verbatim>\<open>writeTextToCanvas\<close>; its callers leave the font size, the colour and the alignment
  at their defaults 20, red and center. The text is a label followed by a number.
\<close>

definition writeTextToCanvas ::
  "string \<Rightarrow> int \<Rightarrow> real \<Rightarrow> real \<Rightarrow> ('c, 'k) Catagotchi \<Rightarrow> ('c, 'k) Catagotchi" where
  "writeTextToCanvas label n xCoordinate yCoordinate g =
     g\<lparr>painted := painted g @
        [FillText label n xCoordinate yCoordinate 20 ''red'' ''center'']\<rparr>"

definition updateDisplays ::
  "('c, 'k) imported \<Rightarrow> ('c, 'k) Catagotchi \<Rightarrow> ('c, 'k) Catagotchi" where
  "updateDisplays D g =
     (let g1 = clearScreen g;
          g2 = g1\<lparr>painted := painted g1 @
                 [DrawImage 100 100 (background_width g1) (canvas_height g1 / 2)]\<rparr>;
          g3 = writeTextToCanvas ''Energy: '' (cat_getEnergy D (cat g2)) 100 100 g2;
          g4 = writeTextToCanvas ''Hunger: '' (cat_getHunger D (cat g3)) 300 100 g3;
          g5 = writeTextToCanvas ''Mood: '' (cat_getMood D (cat g4)) 500 100 g4
      in g5)"

definition gameTick ::
  "('c, 'k) imported \<Rightarrow> ('c, 'k) Catagotchi \<Rightarrow> ('c, 'k) Catagotchi" where
  "gameTick D g =
     (if cat_isAlive D (cat g)
      then (let g1 = callCat CatIgnore (cat_ignore D) g;
                g2 = executeUserAction D g1;
                g3 = updateDisplays D (g2\<lparr>calls := calls g2 @ [UpdateDisplays]\<rparr>)
            in g3)
      else g)"

definition step ::
  "('c, 'k) imported \<Rightarrow> number \<Rightarrow> ('c, 'k) Catagotchi \<Rightarrow> ('c, 'k) Catagotchi" where
  "step D timestamp g =
     (let g1 = (if num_ge (num_sub timestamp (lastTickTimeStamp g)) (num 3000)
                then (gameTick D (g\<lparr>calls := calls g @ [GameTick]\<rparr>))
                       \<lparr>lastTickTimeStamp := timestamp\<rparr>
                else g)
      in g1\<lparr>calls := calls g1 @ [RequestAnimationFrame]\<rparr>)"

text \<open>
  The constructor with \<^verbatim>\<open>startRunning\<close>: \<open>innerWidth\<close> and \<open>innerHeight\<close> are the window's
  size and \<open>now\<close> is what \<^verbatim>\<open>performance.now()\<close> returns.
\<close>

definition startRunning :: "number \<Rightarrow> ('c, 'k) Catagotchi \<Rightarrow> ('c, 'k) Catagotchi" where
  "startRunning now g =
     g\<lparr>lastTickTimeStamp := now, calls := calls g @ [RequestAnimationFrame]\<rparr>"

definition new_Catagotchi ::
  "('c, 'k) imported \<Rightarrow> real \<Rightarrow> real \<Rightarrow> number \<Rightarrow> ('c, 'k) Catagotchi" where
  "new_Catagotchi D innerWidth innerHeight now =
     startRunning now
       \<lparr>canvas_width = innerWidth, canvas_height = innerHeight, background_width = 0,
        painted = [], cat = cat_new D, keyListener = keyListener_new D,
        lastTickTimeStamp = now, calls = []\<rparr>"

text \<open>The animation frames delivered to \<^verbatim>\<open>step\<close>, one after the other.\<close>

fun frames ::
  "('c, 'k) imported \<Rightarrow> number list \<Rightarrow> ('c, 'k) Catagotchi \<Rightarrow> ('c, 'k) Catagotchi" where
  "frames D [] g = g"
| "frames D (t # ts) g = frames D ts (step D t g)"

text \<open>
  Observations on the recorded calls: how often \<^verbatim>\<open>gameTick\<close> was invoked, the calls one
  \<^verbatim>\<open>gameTick\<close> adds, and the timestamps of the frames on which \<^verbatim>\<open>step\<close> invoked
  \<^verbatim>\<open>gameTick\<close> (each as often as it was invoked there).
\<close>

definition gameTicks :: "call list \<Rightarrow> nat" where
  "gameTicks cs = count_list cs GameTick"

definition tickCalls :: "('c, 'k) imported \<Rightarrow> ('c, 'k) Catagotchi \<Rightarrow> call list" where
  "tickCalls D g = drop (length (calls g)) (calls (gameTick D g))"

fun userAction :: "call \<Rightarrow> bool" where
  "userAction CatFeed = True"
| "userAction CatPlay = True"
| "userAction CatSleep = True"
| "userAction c = False"

fun tickFrames ::
  "('c, 'k) imported \<Rightarrow> number list \<Rightarrow> ('c, 'k) Catagotchi \<Rightarrow> number list" where
  "tickFrames D [] g = []"
| "tickFrames D (t # ts) g =
     replicate (gameTicks (calls (step D t g)) - gameTicks (calls g)) t
       @ tickFrames D ts (step D t g)"

text \<open>
  The throttle as the specification words it: a tick fires on a frame if and only if
  the frame's timestamp minus the timestamp of the last fired tick is at least 3000,
  the difference and the comparison being those of JavaScript numbers (\<open>due\<close>).
  \<open>firesAt prev ts\<close> lists the frames of \<open>ts\<close> on which a tick fires, \<open>lastFired prev ts\<close>
  is the timestamp of the last fired tick after them.
\<close>

definition due :: "number \<Rightarrow> number \<Rightarrow> bool" where
  "due t prev = num_ge (num_sub t prev) (num 3000)"

fun firesAt :: "number \<Rightarrow> number list \<Rightarrow> number list" where
  "firesAt prev [] = []"
| "firesAt prev (t # ts) = (if due t prev then t # firesAt t ts else firesAt prev ts)"

fun lastFired :: "number \<Rightarrow> number list \<Rightarrow> number" where
  "lastFired prev [] = prev"
| "lastFired prev (t # ts) = lastFired (if due t prev then t else prev) ts"

text \<open>
  Two controllers show the same game when they agree on everything but the recorded
  calls and the timestamp of the last tick.
\<close>

definition sameGame :: "('c, 'k) Catagotchi \<Rightarrow> ('c, 'k) Catagotchi \<Rightarrow> bool" where
  "sameGame g h \<longleftrightarrow>
     cat g = cat h \<and> keyListener g = keyListener h \<and> painted g = painted h \<and>
     canvas_width g = canvas_width h \<and> canvas_height g = canvas_height h \<and>
     background_width g = background_width h"

section \<open>The controller: \<^verbatim>\<open>src/unnamed/part_000\<close>\<close>

text \<open>
  The second variant of the controller has the same fields without the background
  image; the model keeps the record and this variant never reads \<open>background_width\<close>.
  Its \<^verbatim>\<open>executeUserAction\<close>, \<^verbatim>\<open>gameTick\<close> and \<^verbatim>\<open>step\<close> have the same text as in
  \<^verbatim>\<open>app.ts\<close>, but its class declares neither \<^verbatim>\<open>updateDisplays\<close> nor \<^verbatim>\<open>clearScreen\<close>:
  the file does not type-check, and in the JavaScript emitted from it the call
  \<^verbatim>\<open>this.updateDisplays()\<close> throws a \<^verbatim>\<open>TypeError\<close>. A function of this variant either
  returns or throws, in both cases with the state it has reached.
\<close>

datatype error = TypeError

datatype 's outcome = Returned 's | Thrown error 's

definition executeUserAction_B ::
  "('c, 'k) imported \<Rightarrow> ('c, 'k) Catagotchi \<Rightarrow> ('c, 'k) Catagotchi" where
  "executeUserAction_B D g =
     (let g1 = (if keyListener_isKeyDown D (keyListener g) KEY_F
                then callCat CatFeed (cat_feed D) g else g);
          g2 = (if keyListener_isKeyDown D (keyListener g1) KEY_P
                then callCat CatPlay (cat_play D) g1 else g1);
          g3 = (if keyListener_isKeyDown D (keyListener g2) KEY_S
                then callCat CatSleep (cat_sleep D) g2 else g2)
      in g3)"

text \<open>\<^verbatim>\<open>this.updateDisplays()\<close> where \<^verbatim>\<open>this.updateDisplays\<close> is undefined.\<close>

definition updateDisplays_B :: "('c, 'k) Catagotchi \<Rightarrow> ('c, 'k) Catagotchi outcome" where
  "updateDisplays_B g = Thrown TypeError g"

definition gameTick_B ::
  "('c, 'k) imported \<Rightarrow> ('c, 'k) Catagotchi \<Rightarrow> ('c, 'k) Catagotchi outcome" where
  "gameTick_B D g =
     (if cat_isAlive D (cat g)
      then (let g1 = callCat CatIgnore (cat_ignore D) g;
                g2 = executeUserAction_B D g1
            in updateDisplays_B g2)
      else Returned g)"

text \<open>
  When \<^verbatim>\<open>gameTick\<close> throws, \<^verbatim>\<open>step\<close> is left at once: \<^verbatim>\<open>lastTickTimeStamp\<close> is not set
  and \<^verbatim>\<open>requestAnimationFrame\<close> is not called.
\<close>

definition step_B ::
  "('c, 'k) imported \<Rightarrow> number \<Rightarrow> ('c, 'k) Catagotchi \<Rightarrow> ('c, 'k) Catagotchi outcome" where
  "step_B D timestamp g =
     (if num_ge (num_sub timestamp (lastTickTimeStamp g)) (num 3000)
      then (case gameTick_B D (g\<lparr>calls := calls g @ [GameTick]\<rparr>) of
              Thrown e g1 \<Rightarrow> Thrown e g1
            | Returned g1 \<Rightarrow>
                Returned (g1\<lparr>lastTickTimeStamp := timestamp,
                              calls := calls g1 @ [RequestAnimationFrame]\<rparr>))
      else Returned (g\<lparr>calls := calls g @ [RequestAnimationFrame]\<rparr>))"

text \<open>
  The animation frames delivered to \<^verbatim>\<open>step\<close>: a \<^verbatim>\<open>step\<close> that has thrown has not
  registered itself again, so no later frame reaches it.
\<close>

fun frames_B ::
  "('c, 'k) imported \<Rightarrow> number list \<Rightarrow> ('c, 'k) Catagotchi \<Rightarrow> ('c, 'k) Catagotchi outcome" where
  "frames_B D [] g = Returned g"
| "frames_B D (t # ts) g =
     (case step_B D t g of
        Thrown e g1 \<Rightarrow> Thrown e g1
      | Returned g1 \<Rightarrow> frames_B D ts g1)"

section \<open>The controller on the modelled Cat and KeyListener\<close>

text \<open>
  The two imported classes as the specification describes them, and a running game:
  a window of 800 by 600, started at time 0.
\<close>

definition specImported :: "amounts \<Rightarrow> (Cat, KeyListener) imported" where
  "specImported A =
     \<lparr>cat_new = newCat, cat_isAlive = isAlive, cat_ignore = ignore A, cat_feed = feed A,
      cat_play = play A, cat_sleep = sleep A, cat_getEnergy = getEnergy,
      cat_getHunger = getHunger, cat_getMood = getMood,
      keyListener_new = newKeyListener, keyListener_isKeyDown = isKeyDown\<rparr>"

definition newGame :: "(Cat, KeyListener) Catagotchi" where
  "newGame = new_Catagotchi (specImported unitAmounts) 800 600 (num 0)"

definition allKeysGame :: "(Cat, KeyListener) Catagotchi" where
  "allKeysGame =
     newGame\<lparr>keyListener := keyEvents [Down KEY_F, Down KEY_P, Down KEY_S] newKeyListener\<rparr>"

definition deadGame :: "(Cat, KeyListener) Catagotchi" where
  "deadGame = allKeysGame\<lparr>cat := hungryCat\<lparr>hunger := 0, alive := False\<rparr>\<rparr>"

text \<open>
  What one pass over the three key checks amounts to for a KeyListener \<open>L\<close>: the calls
  made, and the Cat that results, one action per held key in the order F, P, S.
\<close>

definition heldCalls :: "('c, 'k) imported \<Rightarrow> 'k \<Rightarrow> call list" where
  "heldCalls D L =
     (if keyListener_isKeyDown D L KEY_F then [CatFeed] else []) @
     (if keyListener_isKeyDown D L KEY_P then [CatPlay] else []) @
     (if keyListener_isKeyDown D L KEY_S then [CatSleep] else [])"

definition heldActions :: "('c, 'k) imported \<Rightarrow> 'k \<Rightarrow> 'c \<Rightarrow> 'c" where
  "heldActions D L c =
     (let c1 = (if keyListener_isKeyDown D L KEY_F then cat_feed D c else c);
          c2 = (if keyListener_isKeyDown D L KEY_P then cat_play D c1 else c1);
          c3 = (if keyListener_isKeyDown D L KEY_S then cat_sleep D c2 else c2)
      in c3)"

section \<open>Properties of the Cat\<close>

lemma clamp_bounds: "0 \<le> clamp v \<and> clamp v \<le> 100"
  by (simp add: clamp_def)

lemma in_range_checkDeath: "in_range (checkDeath c) = in_range c"
  by (simp add: in_range_def checkDeath_def)

lemma in_range_mutate: "in_range c \<Longrightarrow> in_range (mutate A m c)"
  by (cases m)
     (simp_all add: feed_def play_def sleep_def ignore_def in_range_checkDeath,
      simp_all add: in_range_def clamp_bounds)

lemma in_range_run: "in_range c \<Longrightarrow> in_range (run A ms c)"
  by (induction ms arbitrary: c) (simp_all add: in_range_mutate)

lemma in_range_newCat: "in_range newCat"
  by (simp add: in_range_def newCat_def)

text \<open>
  C1. Whatever the fixed amounts are, after every sequence of \<^verbatim>\<open>feed\<close>, \<^verbatim>\<open>play\<close>,
  \<^verbatim>\<open>sleep\<close> and \<^verbatim>\<open>ignore\<close> calls on a Cat that starts in its initial state, each of
  energy, hunger and mood lies in [0, 100]. Every prefix of a sequence is itself a
  sequence, so the bound holds after every single call.
\<close>

theorem attributes_stay_in_range:
  "0 \<le> energy (run A ms newCat) \<and> energy (run A ms newCat) \<le> 100 \<and>
   0 \<le> hunger (run A ms newCat) \<and> hunger (run A ms newCat) \<le> 100 \<and>
   0 \<le> mood (run A ms newCat) \<and> mood (run A ms newCat) \<le> 100"
  using in_range_run [OF in_range_newCat, of A ms] by (simp add: in_range_def)

lemma run_append: "run A (ms @ ms') c = run A ms' (run A ms c)"
  by (induction ms arbitrary: c) simp_all

lemma mutate_dead: "\<not> alive c \<Longrightarrow> mutate A m c = c"
  by (cases m) (simp_all add: feed_def play_def sleep_def ignore_def)

lemma run_dead: "\<not> alive c \<Longrightarrow> run A ms c = c"
  by (induction ms arbitrary: c) (simp_all add: mutate_dead)

text \<open>
  C2. Death is terminal. Once \<^verbatim>\<open>isAlive()\<close> has returned false after some sequence of
  mutator calls, every further sequence of \<^verbatim>\<open>feed\<close>, \<^verbatim>\<open>play\<close>, \<^verbatim>\<open>sleep\<close> and \<^verbatim>\<open>ignore\<close>
  calls leaves the whole Cat, hence every attribute, as it was, and \<^verbatim>\<open>isAlive()\<close> still
  returns false.
\<close>

theorem death_is_terminal:
  "\<not> isAlive (run A ms c) \<Longrightarrow>
     run A (ms @ ms') c = run A ms c \<and> \<not> isAlive (run A (ms @ ms') c)"
  by (simp add: run_append run_dead isAlive_def)

theorem death_is_terminal_witness:
  "\<not> isAlive (run unitAmounts [Ignore] hungryCat) \<and>
   run unitAmounts ([Ignore] @ [Feed, Play, Sleep, Ignore]) hungryCat
     = run unitAmounts [Ignore] hungryCat \<and>
   \<not> isAlive (run unitAmounts ([Ignore] @ [Feed, Play, Sleep, Ignore]) hungryCat) \<and>
   hunger (run unitAmounts ([Ignore] @ [Feed, Play, Sleep, Ignore]) hungryCat) = 0"
proof -
  have dead: "\<not> isAlive (run unitAmounts [Ignore] hungryCat)"
    by (simp add: isAlive_def ignore_def checkDeath_def clamp_def unitAmounts_def hungryCat_def)
  have "hunger (run unitAmounts [Ignore] hungryCat) = 0"
    by (simp add: ignore_def checkDeath_def clamp_def unitAmounts_def hungryCat_def)
  with dead death_is_terminal [OF dead, of "[Feed, Play, Sleep, Ignore]"] show ?thesis
    by simp
qed

lemma in_range_ignores: "in_range c \<Longrightarrow> in_range (ignores A n c)"
  by (induction n) (simp_all add: in_range_mutate [where m = Ignore, simplified])

lemma ignore_alive:
  "alive c \<Longrightarrow> in_range c \<Longrightarrow>
   0 < hungerDecay A \<Longrightarrow> 0 < energyDecay A \<Longrightarrow> 0 < moodDecay A \<Longrightarrow>
   hunger (ignore A c) = max 0 (hunger c - hungerDecay A) \<and>
   energy (ignore A c) = max 0 (energy c - energyDecay A) \<and>
   mood (ignore A c) = max 0 (mood c - moodDecay A)"
  by (simp add: ignore_def checkDeath_def clamp_def in_range_def)

lemma ignore_dead: "\<not> alive c \<Longrightarrow> ignore A c = c"
  by (simp add: ignore_def)

lemma ignore_hungryCat:
  "ignore unitAmounts hungryCat = \<lparr>energy = 99, hunger = 0, mood = 99, alive = False\<rparr>"
  by (simp add: ignore_def checkDeath_def clamp_def unitAmounts_def hungryCat_def)

text \<open>
  C7, as amended. Let the three decay amounts be positive and the Cat's attributes lie
  in [0, 100]. As long as the Cat is alive before a call of \<^verbatim>\<open>ignore()\<close>, the call lowers
  each of hunger, energy and mood by its decay amount, clamped at the floor 0: a value
  above 0 strictly decreases and a value at 0 stays 0. Once the Cat is dead, a call of
  \<^verbatim>\<open>ignore()\<close> changes nothing, so the attributes stay where they were at death, which
  need not be the floor.
\<close>

theorem ignore_decays_while_alive:
  assumes "0 < hungerDecay A" and "0 < energyDecay A" and "0 < moodDecay A"
    and "in_range c"
  shows "(alive (ignores A n c) \<longrightarrow>
            hunger (ignores A (Suc n) c) = max 0 (hunger (ignores A n c) - hungerDecay A) \<and>
            energy (ignores A (Suc n) c) = max 0 (energy (ignores A n c) - energyDecay A) \<and>
            mood (ignores A (Suc n) c) = max 0 (mood (ignores A n c) - moodDecay A) \<and>
            (0 < hunger (ignores A n c) \<longrightarrow>
               hunger (ignores A (Suc n) c) < hunger (ignores A n c)) \<and>
            (0 < energy (ignores A n c) \<longrightarrow>
               energy (ignores A (Suc n) c) < energy (ignores A n c)) \<and>
            (0 < mood (ignores A n c) \<longrightarrow>
               mood (ignores A (Suc n) c) < mood (ignores A n c))) \<and>
         (\<not> alive (ignores A n c) \<longrightarrow> ignores A (Suc n) c = ignores A n c)"
proof -
  have "in_range (ignores A n c)"
    using assms(4) by (rule in_range_ignores)
  from ignore_alive [OF _ this assms(1-3)] assms(1-3) ignore_dead [of "ignores A n c" A]
  show ?thesis by auto
qed

theorem ignore_decays_while_alive_witness:
  "0 < hungerDecay unitAmounts \<and> 0 < energyDecay unitAmounts \<and> 0 < moodDecay unitAmounts \<and>
   in_range hungryCat \<and>
   alive (ignores unitAmounts 0 hungryCat) \<and>
   0 < hunger (ignores unitAmounts 0 hungryCat) \<and>
   0 < energy (ignores unitAmounts 0 hungryCat) \<and>
   0 < mood (ignores unitAmounts 0 hungryCat) \<and>
   hunger (ignores unitAmounts (Suc 0) hungryCat) = 0 \<and>
   energy (ignores unitAmounts (Suc 0) hungryCat) = 99 \<and>
   mood (ignores unitAmounts (Suc 0) hungryCat) = 99 \<and>
   \<not> alive (ignores unitAmounts (Suc 0) hungryCat) \<and>
   ignores unitAmounts (Suc (Suc 0)) hungryCat = ignores unitAmounts (Suc 0) hungryCat"
proof -
  have pos: "0 < hungerDecay unitAmounts" "0 < energyDecay unitAmounts"
    "0 < moodDecay unitAmounts"
    by (simp_all add: unitAmounts_def)
  have rng: "in_range hungryCat"
    by (simp add: in_range_def hungryCat_def)
  have start: "alive hungryCat" "hunger hungryCat = 1" "energy hungryCat = 100"
    "mood hungryCat = 100"
    by (simp_all add: hungryCat_def)
  have d: "hungerDecay unitAmounts = 1" "energyDecay unitAmounts = 1" "moodDecay unitAmounts = 1"
    by (simp_all add: unitAmounts_def)
  note first = ignore_decays_while_alive [OF pos rng, of 0]
  have dead: "\<not> alive (ignores unitAmounts (Suc 0) hungryCat)"
    by (simp add: ignore_hungryCat)
  note second = ignore_decays_while_alive [OF pos rng, of "Suc 0"]
  from first second dead pos rng start d show ?thesis
    by simp
qed

text \<open>
  The claim as stated fails: with every amount 1, a Cat with hunger 1, energy 100 and
  mood 100 dies on its first \<^verbatim>\<open>ignore()\<close>, and the second \<^verbatim>\<open>ignore()\<close> leaves energy and
  mood at 99, neither decreased nor at the floor.
\<close>

theorem ignore_stops_decay_at_death:
  "alive hungryCat \<and>
   0 < energy (ignore unitAmounts hungryCat) \<and>
   energy (ignore unitAmounts (ignore unitAmounts hungryCat)) =
     energy (ignore unitAmounts hungryCat) \<and>
   0 < mood (ignore unitAmounts hungryCat) \<and>
   mood (ignore unitAmounts (ignore unitAmounts hungryCat)) =
     mood (ignore unitAmounts hungryCat)"
proof -
  have "ignore unitAmounts \<lparr>energy = 99, hunger = 0, mood = 99, alive = False\<rparr>
      = \<lparr>energy = 99, hunger = 0, mood = 99, alive = False\<rparr>"
    by (simp add: ignore_def)
  moreover have "alive hungryCat"
    by (simp add: hungryCat_def)
  ultimately show ?thesis
    by (simp add: ignore_hungryCat)
qed

section \<open>Properties of the KeyListener\<close>

lemma handleKey_unmonitored: "\<not> monitored code \<Longrightarrow> handleKey e L code = L code"
  by (cases e) (auto simp: keyDown_def keyUp_def)

lemma unmonitored_never_down: "\<not> monitored code \<Longrightarrow> keyEvents es L code = L code"
  by (induction es arbitrary: L) (simp_all add: handleKey_unmonitored)

text \<open>
  C8, as amended. \<^verbatim>\<open>isKeyDown(code)\<close> returns false before any key event; for a monitored
  code (F, P or S) it returns true immediately after a key-down event for that code and
  false immediately after a key-up event for it; after a key-up event for any code, in
  every state the events can produce, it returns false for that code; events for another
  code leave its answer unchanged; and for a code outside the monitored set it returns
  false after every sequence of events. It is a total function, so it never fails.
\<close>

theorem keyListener_tracks_monitored_keys:
  "\<not> isKeyDown newKeyListener code \<and>
   (monitored code \<longrightarrow> isKeyDown (keyDown code L) code \<and> \<not> isKeyDown (keyUp code L) code) \<and>
   \<not> isKeyDown (keyUp code (keyEvents es newKeyListener)) code \<and>
   (other \<noteq> code \<longrightarrow>
      isKeyDown (keyDown other L) code = isKeyDown L code \<and>
      isKeyDown (keyUp other L) code = isKeyDown L code) \<and>
   (\<not> monitored code \<longrightarrow> \<not> isKeyDown (keyEvents es newKeyListener) code)"
  by (auto simp: isKeyDown_def keyDown_def keyUp_def newKeyListener_def unmonitored_never_down)

theorem keyListener_tracks_monitored_keys_witness:
  "monitored KEY_F \<and> KEY_P \<noteq> KEY_F \<and> \<not> monitored (OtherKey 65) \<and>
   isKeyDown (keyDown KEY_F newKeyListener) KEY_F \<and>
   \<not> isKeyDown (keyUp KEY_F (keyDown KEY_F newKeyListener)) KEY_F \<and>
   isKeyDown (keyUp KEY_P (keyDown KEY_F newKeyListener)) KEY_F \<and>
   \<not> isKeyDown (keyEvents [Down (OtherKey 65)] newKeyListener) (OtherKey 65)"
  using keyListener_tracks_monitored_keys [of KEY_F "newKeyListener" "[]" KEY_P]
        keyListener_tracks_monitored_keys [of KEY_F "keyDown KEY_F newKeyListener" "[]" KEY_P]
        keyListener_tracks_monitored_keys [of "OtherKey 65" "newKeyListener" "[Down (OtherKey 65)]" KEY_P]
  by simp

text \<open>
  The claim as stated fails for a code outside the monitored set: after a key-down event
  for such a code \<^verbatim>\<open>isKeyDown\<close> does not return true.
\<close>

theorem unmonitored_key_down_not_reported:
  "\<not> isKeyDown (keyDown (OtherKey 65) newKeyListener) (OtherKey 65)"
  by (simp add: isKeyDown_def keyDown_def newKeyListener_def)

section \<open>Properties of the controller\<close>

lemma executeUserAction_eq:
  "executeUserAction D g =
     g\<lparr>cat := heldActions D (keyListener g) (cat g),
       calls := calls g @ heldCalls D (keyListener g)\<rparr>"
  by (simp add: executeUserAction_def heldActions_def heldCalls_def callCat_def Let_def)

lemma updateDisplays_eq:
  "updateDisplays D g =
     g\<lparr>painted :=
        [DrawImage 100 100 (background_width g) (canvas_height g / 2),
         FillText ''Energy: '' (cat_getEnergy D (cat g)) 100 100 20 ''red'' ''center'',
         FillText ''Hunger: '' (cat_getHunger D (cat g)) 300 100 20 ''red'' ''center'',
         FillText ''Mood: '' (cat_getMood D (cat g)) 500 100 20 ''red'' ''center'']\<rparr>"
  by (simp add: updateDisplays_def clearScreen_def writeTextToCanvas_def Let_def)

lemma gameTick_alive:
  "cat_isAlive D (cat g) \<Longrightarrow>
   gameTick D g =
     updateDisplays D
       (g\<lparr>cat := heldActions D (keyListener g) (cat_ignore D (cat g)),
          calls := calls g @ [CatIgnore] @ heldCalls D (keyListener g) @ [UpdateDisplays]\<rparr>)"
  by (simp add: gameTick_def executeUserAction_eq callCat_def Let_def)

lemma gameTick_dead: "\<not> cat_isAlive D (cat g) \<Longrightarrow> gameTick D g = g"
  by (simp add: gameTick_def)

lemma tickCalls_eq:
  "tickCalls D g =
     (if cat_isAlive D (cat g)
      then [CatIgnore] @ heldCalls D (keyListener g) @ [UpdateDisplays] else [])"
  by (simp add: tickCalls_def gameTick_alive gameTick_dead updateDisplays_eq)

lemma calls_gameTick: "calls (gameTick D g) = calls g @ tickCalls D g"
  by (simp add: tickCalls_eq gameTick_alive gameTick_dead updateDisplays_eq)

lemma gameTicks_append: "gameTicks (xs @ ys) = gameTicks xs + gameTicks ys"
  by (simp add: gameTicks_def)

lemma gameTicks_simps:
  "gameTicks [] = 0"
  "gameTicks (c # cs) = (if c = GameTick then 1 else 0) + gameTicks cs"
  by (simp_all add: gameTicks_def)

lemma gameTicks_tickCalls: "gameTicks (tickCalls D g) = 0"
  by (simp add: tickCalls_eq heldCalls_def gameTicks_def)

lemma lastTickTimeStamp_gameTick: "lastTickTimeStamp (gameTick D g) = lastTickTimeStamp g"
  by (cases "cat_isAlive D (cat g)") (simp_all add: gameTick_alive gameTick_dead updateDisplays_eq)

lemma round64_exact: "\<bar>m\<bar> < 2 ^ 53 \<Longrightarrow> round64 m 0 = Double m 0"
proof -
  assume small: "\<bar>m\<bar> < 2 ^ 53"
  define a where "a = nat \<bar>m\<bar>"
  have ia: "int a = \<bar>m\<bar>"
    by (simp add: a_def)
  have "bitlen (int a) \<le> 53"
    using small bitlen_le_iff_power [of "\<bar>m\<bar>" 53] by (simp add: ia)
  then have shift: "nat (max (bitlen (int a) - 53) (- 1074 - 0)) = 0"
    and fits: "\<not> bitlen (int a) > 1024"
    by simp_all
  have exact: "roundShift a 0 = a"
    by (simp add: roundShift_def)
  have "round64 m 0 = Double (sgn m * int a) 0"
    unfolding round64_def Let_def a_def [symmetric] shift exact
    using fits by simp
  also have "sgn m * int a = m"
    unfolding ia by (rule mult_sgn_abs)
  finally show ?thesis .
qed

lemma due_num: "\<bar>a - b\<bar> < 2 ^ 53 \<Longrightarrow> due (num a) (num b) \<longleftrightarrow> a - b \<ge> 3000"
  by (simp add: due_def num_def round64_exact)

lemma step_lastTickTimeStamp:
  "lastTickTimeStamp (step D t g) =
     (if due t (lastTickTimeStamp g) then t else lastTickTimeStamp g)"
  by (simp add: step_def due_def Let_def)

lemma gameTick_calls:
  "gameTick D (g\<lparr>calls := cs\<rparr>) = (gameTick D g)\<lparr>calls := cs @ tickCalls D g\<rparr>"
  by (cases "cat_isAlive D (cat g)")
     (simp_all add: gameTick_alive gameTick_dead updateDisplays_eq tickCalls_eq)

lemma step_eq:
  "step D t g =
     (if due t (lastTickTimeStamp g)
      then (gameTick D g)
             \<lparr>lastTickTimeStamp := t,
              calls := calls g @ [GameTick] @ tickCalls D g @ [RequestAnimationFrame]\<rparr>
      else g\<lparr>calls := calls g @ [RequestAnimationFrame]\<rparr>)"
  by (simp add: step_def due_def Let_def gameTick_calls)

lemma step_gameTicks:
  "gameTicks (calls (step D t g)) =
     gameTicks (calls g) + (if due t (lastTickTimeStamp g) then 1 else 0)"
  by (simp add: step_eq gameTicks_append gameTicks_tickCalls gameTicks_simps)

lemma tickFrames_firesAt: "tickFrames D ts g = firesAt (lastTickTimeStamp g) ts"
  by (induction ts arbitrary: g) (simp_all add: step_gameTicks step_lastTickTimeStamp)

lemma frames_lastFired: "lastTickTimeStamp (frames D ts g) = lastFired (lastTickTimeStamp g) ts"
  by (induction ts arbitrary: g) (simp_all add: step_lastTickTimeStamp)

lemma sameGame_trans: "sameGame g h \<Longrightarrow> sameGame h k \<Longrightarrow> sameGame g k"
  by (simp add: sameGame_def)

lemma sameGame_gameTick: "sameGame g h \<Longrightarrow> sameGame (gameTick D g) (gameTick D h)"
  by (cases "cat_isAlive D (cat h)")
     (simp_all add: sameGame_def gameTick_alive gameTick_dead updateDisplays_eq)

lemma sameGame_funpow:
  "sameGame g h \<Longrightarrow> sameGame ((gameTick D ^^ n) g) ((gameTick D ^^ n) h)"
  by (induction n) (simp_all add: sameGame_gameTick)

lemma sameGame_step:
  "sameGame (step D t g) (if due t (lastTickTimeStamp g) then gameTick D g else g)"
  by (simp add: step_eq sameGame_def)

lemma frames_sameGame:
  "sameGame (frames D ts g) ((gameTick D ^^ length (firesAt (lastTickTimeStamp g) ts)) g)"
proof (induction ts arbitrary: g)
  case Nil
  show ?case by (simp add: sameGame_def)
next
  case (Cons t ts)
  let ?n = "length (firesAt (lastTickTimeStamp (step D t g)) ts)"
  have "sameGame (frames D ts (step D t g)) ((gameTick D ^^ ?n) (step D t g))"
    by (rule Cons.IH)
  moreover have "sameGame ((gameTick D ^^ ?n) (step D t g))
      ((gameTick D ^^ ?n) (if due t (lastTickTimeStamp g) then gameTick D g else g))"
    by (rule sameGame_funpow) (rule sameGame_step)
  ultimately have "sameGame (frames D ts (step D t g))
      ((gameTick D ^^ ?n) (if due t (lastTickTimeStamp g) then gameTick D g else g))"
    by (rule sameGame_trans)
  then show ?case
    by (cases "due t (lastTickTimeStamp g)")
       (simp_all add: step_lastTickTimeStamp funpow_swap1)
qed

lemma heldCalls_userActions:
  "length (filter userAction (heldCalls D L)) =
     of_bool (keyListener_isKeyDown D L KEY_F) + of_bool (keyListener_isKeyDown D L KEY_P) +
     of_bool (keyListener_isKeyDown D L KEY_S)"
  by (simp add: heldCalls_def)

lemma heldCalls_ignores: "count_list (heldCalls D L) CatIgnore = 0"
  by (simp add: heldCalls_def)

lemma executeUserAction_B_eq: "executeUserAction_B D g = executeUserAction D g"
  by (simp add: executeUserAction_B_def executeUserAction_def)

lemma step_B_throws:
  "cat_isAlive D (cat g) \<Longrightarrow> due t (lastTickTimeStamp g) \<Longrightarrow>
   step_B D t g =
     Thrown TypeError
       (g\<lparr>cat := heldActions D (keyListener g) (cat_ignore D (cat g)),
          calls := calls g @ [GameTick, CatIgnore] @ heldCalls D (keyListener g)\<rparr>)"
  by (simp add: step_B_def due_def gameTick_B_def updateDisplays_B_def executeUserAction_B_eq
      executeUserAction_eq callCat_def Let_def)

lemma step_B_returns:
  "\<not> cat_isAlive D (cat g) \<or> \<not> due t (lastTickTimeStamp g) \<Longrightarrow>
   step_B D t g = Returned (step D t g)"
  by (auto simp: step_B_def step_def due_def gameTick_B_def gameTick_def Let_def)

lemma bitlen_eqI: "2 ^ n \<le> x \<Longrightarrow> x < 2 ^ Suc n \<Longrightarrow> bitlen x = int (Suc n)"
proof (rule antisym)
  have n: "nat (int (Suc n)) = Suc n" "nat (int (Suc n)) - 1 = n"
    by simp_all
  assume "x < 2 ^ Suc n"
  then show "bitlen x \<le> int (Suc n)"
    unfolding bitlen_le_iff_power n by simp
  assume "2 ^ n \<le> x"
  then show "int (Suc n) \<le> bitlen x"
    unfolding bitlen_ge_iff_power n by simp
qed

text \<open>
  With whole timestamps below \<open>2 ^ 53\<close> the difference is exact (\<open>due_num\<close>); otherwise
  it is rounded: from the start time 0.1 the frame 3000.1 is due, although the two
  doubles differ by less than 3000.
\<close>

lemma due_rounds:
  "due (Double 6597289668981555 (- 41)) (Double 3602879701896397 (- 55)) \<and>
   (6597289668981555 * 2 ^ 14 - 3602879701896397 :: int) < 3000 * 2 ^ 55"
proof -
  have len: "bitlen 108086391056891900723 = 67"
    using bitlen_eqI [of 66 108086391056891900723] by simp
  have len': "bitlen 6597069766656000 = 53"
    using bitlen_eqI [of 52 6597069766656000] by simp
  have shifted: "roundShift 108086391056891900723 14 = 6597069766656000"
    by (simp add: roundShift_def)
  have "round64 108086391056891900723 (- 55) = Double 6597069766656000 (- 41)"
    by (simp add: round64_def len len' shifted)
  then have "num_sub (Double 6597289668981555 (- 41)) (Double 3602879701896397 (- 55))
      = Double 6597069766656000 (- 41)"
    by simp
  then show ?thesis
    by (simp add: due_def num_def)
qed

text \<open>
  C3. The throttle. On a frame with timestamp \<open>t\<close>, \<^verbatim>\<open>step\<close> invokes \<^verbatim>\<open>gameTick\<close> exactly
  once if \<open>t\<close> minus the timestamp of the last fired tick, as JavaScript computes it,
  is at least 3000, and not at all otherwise: in the first case the controller is the
  one \<^verbatim>\<open>gameTick\<close> returns, with \<^verbatim>\<open>lastTickTimeStamp\<close> set to \<open>t\<close> and with the calls
  \<^verbatim>\<open>gameTick\<close>, those made by \<^verbatim>\<open>gameTick\<close> and \<^verbatim>\<open>requestAnimationFrame\<close> recorded; in the
  second case only \<^verbatim>\<open>requestAnimationFrame\<close> is called. The constructor sets
  \<^verbatim>\<open>lastTickTimeStamp\<close> to the start time. So for every sequence of frames, increasing
  or not, the frames on which \<^verbatim>\<open>gameTick\<close> is invoked are those the rule of the
  specification selects, and the Cat and the drawing surface after the frames are
  those after as many calls of \<^verbatim>\<open>gameTick\<close> as frames were selected. With start time 0
  and the frames 0, 1000, 2999, 3000, 5999, 6000 the ticks fire at 3000 and 6000; with
  start time 0.1 a tick fires on the frame 3000.1, whose rounded difference is 3000.
\<close>

theorem step_throttle:
  "step D t g =
     (if due t (lastTickTimeStamp g)
      then (gameTick D g)
             \<lparr>lastTickTimeStamp := t,
              calls := calls g @ [GameTick] @ tickCalls D g @ [RequestAnimationFrame]\<rparr>
      else g\<lparr>calls := calls g @ [RequestAnimationFrame]\<rparr>) \<and>
   gameTicks (calls (step D t g)) =
     gameTicks (calls g) + (if due t (lastTickTimeStamp g) then 1 else 0) \<and>
   lastTickTimeStamp (new_Catagotchi D w h now) = now \<and>
   tickFrames D ts g = firesAt (lastTickTimeStamp g) ts \<and>
   lastTickTimeStamp (frames D ts g) = lastFired (lastTickTimeStamp g) ts \<and>
   cat (frames D ts g) =
     cat ((gameTick D ^^ length (firesAt (lastTickTimeStamp g) ts)) g) \<and>
   painted (frames D ts g) =
     painted ((gameTick D ^^ length (firesAt (lastTickTimeStamp g) ts)) g) \<and>
   tickFrames D [num 0, num 1000, num 2999, num 3000, num 5999, num 6000]
     (new_Catagotchi D w h (num 0)) = [num 3000, num 6000] \<and>
   tickFrames D [Double 6597289668981555 (- 41)]
     (new_Catagotchi D w h (Double 3602879701896397 (- 55))) =
     [Double 6597289668981555 (- 41)]"
proof -
  have "sameGame (frames D ts g)
      ((gameTick D ^^ length (firesAt (lastTickTimeStamp g) ts)) g)"
    by (rule frames_sameGame)
  then have same: "cat (frames D ts g) =
      cat ((gameTick D ^^ length (firesAt (lastTickTimeStamp g) ts)) g)"
    "painted (frames D ts g) =
      painted ((gameTick D ^^ length (firesAt (lastTickTimeStamp g) ts)) g)"
    by (simp_all add: sameGame_def)
  have start: "lastTickTimeStamp (new_Catagotchi D w h now) = now" for now
    by (simp add: new_Catagotchi_def startRunning_def)
  have "firesAt (num 0) [num 0, num 1000, num 2999, num 3000, num 5999, num 6000]
      = [num 3000, num 6000]"
    by (simp add: due_num)
  then have example: "tickFrames D [num 0, num 1000, num 2999, num 3000, num 5999, num 6000]
      (new_Catagotchi D w h (num 0)) = [num 3000, num 6000]"
    by (simp only: tickFrames_firesAt start)
  have rounded: "tickFrames D [Double 6597289668981555 (- 41)]
      (new_Catagotchi D w h (Double 3602879701896397 (- 55))) =
      [Double 6597289668981555 (- 41)]"
    using due_rounds by (simp add: tickFrames_firesAt start)
  from step_eq [of D t g] step_gameTicks [of D t g] start [of now]
    tickFrames_firesAt [of D ts g] frames_lastFired [of D ts g] same example rounded
  show ?thesis
    by (intro conjI)
qed

text \<open>
  C4, as amended. In a tick on a live Cat the Cat is mutated once by \<^verbatim>\<open>ignore()\<close> and by
  one user-triggered action for each of the keys F, P and S that is held down: feed for
  F, play for P, sleep for S, so by none up to three of them. In a tick on a dead Cat it
  is not mutated at all. The Cat after the tick is the result of just these mutators, and
  the calls made are just these, in this order, followed by the redraw.
\<close>

theorem tick_applies_every_held_action:
  "cat (gameTick D g) =
     (if cat_isAlive D (cat g)
      then (if keyListener_isKeyDown D (keyListener g) KEY_S then cat_sleep D else id)
             ((if keyListener_isKeyDown D (keyListener g) KEY_P then cat_play D else id)
               ((if keyListener_isKeyDown D (keyListener g) KEY_F then cat_feed D else id)
                 (cat_ignore D (cat g))))
      else cat g) \<and>
   tickCalls D g =
     (if cat_isAlive D (cat g)
      then [CatIgnore] @
           (if keyListener_isKeyDown D (keyListener g) KEY_F then [CatFeed] else []) @
           (if keyListener_isKeyDown D (keyListener g) KEY_P then [CatPlay] else []) @
           (if keyListener_isKeyDown D (keyListener g) KEY_S then [CatSleep] else []) @
           [UpdateDisplays]
      else []) \<and>
   count_list (tickCalls D g) CatIgnore = (if cat_isAlive D (cat g) then 1 else 0) \<and>
   length (filter userAction (tickCalls D g)) =
     (if cat_isAlive D (cat g)
      then of_bool (keyListener_isKeyDown D (keyListener g) KEY_F) +
           of_bool (keyListener_isKeyDown D (keyListener g) KEY_P) +
           of_bool (keyListener_isKeyDown D (keyListener g) KEY_S)
      else 0) \<and>
   length (filter userAction (tickCalls D g)) \<le> 3"
proof -
  have "cat (gameTick D g) =
     (if cat_isAlive D (cat g)
      then heldActions D (keyListener g) (cat_ignore D (cat g)) else cat g)"
    by (simp add: gameTick_alive gameTick_dead updateDisplays_eq)
  then have mutated: "cat (gameTick D g) =
     (if cat_isAlive D (cat g)
      then (if keyListener_isKeyDown D (keyListener g) KEY_S then cat_sleep D else id)
             ((if keyListener_isKeyDown D (keyListener g) KEY_P then cat_play D else id)
               ((if keyListener_isKeyDown D (keyListener g) KEY_F then cat_feed D else id)
                 (cat_ignore D (cat g))))
      else cat g)"
    by (simp add: heldActions_def)
  have called: "tickCalls D g =
     (if cat_isAlive D (cat g)
      then [CatIgnore] @
           (if keyListener_isKeyDown D (keyListener g) KEY_F then [CatFeed] else []) @
           (if keyListener_isKeyDown D (keyListener g) KEY_P then [CatPlay] else []) @
           (if keyListener_isKeyDown D (keyListener g) KEY_S then [CatSleep] else []) @
           [UpdateDisplays]
      else [])"
    by (simp add: tickCalls_eq heldCalls_def)
  have counted: "count_list (tickCalls D g) CatIgnore = (if cat_isAlive D (cat g) then 1 else 0)"
    "length (filter userAction (tickCalls D g)) =
     (if cat_isAlive D (cat g)
      then of_bool (keyListener_isKeyDown D (keyListener g) KEY_F) +
           of_bool (keyListener_isKeyDown D (keyListener g) KEY_P) +
           of_bool (keyListener_isKeyDown D (keyListener g) KEY_S)
      else 0)"
    "length (filter userAction (tickCalls D g)) \<le> 3"
    by (simp_all add: tickCalls_eq heldCalls_userActions heldCalls_ignores)
  from mutated called counted show ?thesis
    by (intro conjI)
qed

text \<open>
  The claim as stated fails: with F, P and S held down, one tick on the new Cat applies
  three user-triggered actions.
\<close>

theorem three_actions_in_one_tick:
  "isAlive (cat allKeysGame) \<and>
   tickCalls (specImported unitAmounts) allKeysGame =
     [CatIgnore, CatFeed, CatPlay, CatSleep, UpdateDisplays] \<and>
   length (filter userAction (tickCalls (specImported unitAmounts) allKeysGame)) = 3"
  by (simp add: tickCalls_eq heldCalls_def specImported_def allKeysGame_def newGame_def
      new_Catagotchi_def startRunning_def isAlive_def newCat_def isKeyDown_def keyDown_def
      newKeyListener_def)

text \<open>
  C5. In a tick on a live Cat, \<^verbatim>\<open>gameTick\<close> first calls \<^verbatim>\<open>ignore()\<close>, then, for each of the
  keys F, P, S in this order and independently of the others, the action of the key if
  it is held down (feed, play, sleep), and last redraws: the drawing surface then shows
  the attributes of the Cat as all these calls left it. With several keys held, all
  their actions are applied.
\<close>

theorem gameTick_order:
  assumes "cat_isAlive D (cat g)"
  shows "tickCalls D g =
           [CatIgnore] @
           (if keyListener_isKeyDown D (keyListener g) KEY_F then [CatFeed] else []) @
           (if keyListener_isKeyDown D (keyListener g) KEY_P then [CatPlay] else []) @
           (if keyListener_isKeyDown D (keyListener g) KEY_S then [CatSleep] else []) @
           [UpdateDisplays] \<and>
         cat (gameTick D g) =
           (if keyListener_isKeyDown D (keyListener g) KEY_S then cat_sleep D else id)
             ((if keyListener_isKeyDown D (keyListener g) KEY_P then cat_play D else id)
               ((if keyListener_isKeyDown D (keyListener g) KEY_F then cat_feed D else id)
                 (cat_ignore D (cat g)))) \<and>
         painted (gameTick D g) =
           [DrawImage 100 100 (background_width g) (canvas_height g / 2),
            FillText ''Energy: '' (cat_getEnergy D (cat (gameTick D g))) 100 100
              20 ''red'' ''center'',
            FillText ''Hunger: '' (cat_getHunger D (cat (gameTick D g))) 300 100
              20 ''red'' ''center'',
            FillText ''Mood: '' (cat_getMood D (cat (gameTick D g))) 500 100
              20 ''red'' ''center'']"
  using assms
  by (simp add: tickCalls_eq heldCalls_def gameTick_alive updateDisplays_eq heldActions_def)

theorem gameTick_order_witness:
  "cat_isAlive (specImported unitAmounts) (cat allKeysGame) \<and>
   tickCalls (specImported unitAmounts) allKeysGame =
     [CatIgnore, CatFeed, CatPlay, CatSleep, UpdateDisplays] \<and>
   cat (gameTick (specImported unitAmounts) allKeysGame) =
     \<lparr>energy = 49, hunger = 50, mood = 50, alive = True\<rparr> \<and>
   painted (gameTick (specImported unitAmounts) allKeysGame) =
     [DrawImage 100 100 0 300,
      FillText ''Energy: '' 49 100 100 20 ''red'' ''center'',
      FillText ''Hunger: '' 50 300 100 20 ''red'' ''center'',
      FillText ''Mood: '' 50 500 100 20 ''red'' ''center'']"
proof -
  have live: "cat_isAlive (specImported unitAmounts) (cat allKeysGame)"
    by (simp add: specImported_def allKeysGame_def newGame_def new_Catagotchi_def
        startRunning_def isAlive_def newCat_def)
  have keys: "keyListener_isKeyDown (specImported unitAmounts) (keyListener allKeysGame) KEY_F"
    "keyListener_isKeyDown (specImported unitAmounts) (keyListener allKeysGame) KEY_P"
    "keyListener_isKeyDown (specImported unitAmounts) (keyListener allKeysGame) KEY_S"
    by (simp_all add: specImported_def allKeysGame_def isKeyDown_def keyDown_def)
  have c: "cat allKeysGame = newCat"
    by (simp add: specImported_def allKeysGame_def newGame_def new_Catagotchi_def
        startRunning_def)
  have dims: "background_width allKeysGame = 0" "canvas_height allKeysGame = 600"
    by (simp_all add: specImported_def allKeysGame_def newGame_def new_Catagotchi_def
        startRunning_def)
  have ops: "cat_ignore (specImported unitAmounts) = ignore unitAmounts"
    "cat_feed (specImported unitAmounts) = feed unitAmounts"
    "cat_play (specImported unitAmounts) = play unitAmounts"
    "cat_sleep (specImported unitAmounts) = sleep unitAmounts"
    "cat_getEnergy (specImported unitAmounts) = getEnergy"
    "cat_getHunger (specImported unitAmounts) = getHunger"
    "cat_getMood (specImported unitAmounts) = getMood"
    by (simp_all add: specImported_def)
  have final: "sleep unitAmounts (play unitAmounts (feed unitAmounts (ignore unitAmounts newCat)))
      = \<lparr>energy = 49, hunger = 50, mood = 50, alive = True\<rparr>"
    by (simp add: sleep_def play_def feed_def ignore_def checkDeath_def clamp_def
        unitAmounts_def newCat_def)
  from gameTick_order [OF live] live keys c dims ops final show ?thesis
    by (simp add: getEnergy_def getHunger_def getMood_def)
qed

text \<open>
  C6. A tick on a dead Cat changes nothing: \<^verbatim>\<open>gameTick\<close> returns the controller as it
  was, with the same Cat, the same drawing surface and no call made, whatever keys are
  held.
\<close>

theorem dead_tick_is_noop:
  "\<not> cat_isAlive D (cat g) \<Longrightarrow> gameTick D g = g \<and> tickCalls D g = []"
  by (simp add: gameTick_dead tickCalls_eq)

theorem dead_tick_is_noop_witness:
  "\<not> cat_isAlive (specImported unitAmounts) (cat deadGame) \<and>
   keyListener_isKeyDown (specImported unitAmounts) (keyListener deadGame) KEY_F \<and>
   gameTick (specImported unitAmounts) deadGame = deadGame \<and>
   tickCalls (specImported unitAmounts) deadGame = []"
proof -
  have dead: "\<not> cat_isAlive (specImported unitAmounts) (cat deadGame)"
    by (simp add: specImported_def deadGame_def isAlive_def)
  have "keyListener_isKeyDown (specImported unitAmounts) (keyListener deadGame) KEY_F"
    by (simp add: specImported_def deadGame_def allKeysGame_def isKeyDown_def keyDown_def)
  with dead dead_tick_is_noop [OF dead] show ?thesis by simp
qed

text \<open>
  C9. \<^verbatim>\<open>gameTick\<close>, \<^verbatim>\<open>executeUserAction\<close> and \<^verbatim>\<open>updateDisplays\<close> leave
  \<^verbatim>\<open>lastTickTimeStamp\<close> as it is; \<^verbatim>\<open>step\<close> sets it to the frame's timestamp exactly on
  the frames that are due, those whose timestamp minus \<^verbatim>\<open>lastTickTimeStamp\<close>, as
  JavaScript computes it, is at least 3000, whatever the Cat. So the schedule does
  not depend on the Cat: with any other Cat \<open>c'\<close>, dead or alive, and any other
  implementation \<open>D'\<close> of the imported classes, the same frames fire and
  \<^verbatim>\<open>lastTickTimeStamp\<close> ends at the same value.
\<close>

theorem only_step_sets_lastTickTimeStamp:
  "lastTickTimeStamp (gameTick D g) = lastTickTimeStamp g \<and>
   lastTickTimeStamp (executeUserAction D g) = lastTickTimeStamp g \<and>
   lastTickTimeStamp (updateDisplays D g) = lastTickTimeStamp g \<and>
   lastTickTimeStamp (step D t g) =
     (if num_ge (num_sub t (lastTickTimeStamp g)) (num 3000)
      then t else lastTickTimeStamp g) \<and>
   lastTickTimeStamp (frames D' ts (g\<lparr>cat := c'\<rparr>)) = lastTickTimeStamp (frames D ts g) \<and>
   tickFrames D' ts (g\<lparr>cat := c'\<rparr>) = tickFrames D ts g"
  by (simp add: lastTickTimeStamp_gameTick executeUserAction_eq updateDisplays_eq
      step_lastTickTimeStamp frames_lastFired tickFrames_firesAt due_def)

text \<open>
  C10. The two variants of the controller are meant to agree on the game state, and
  their \<^verbatim>\<open>executeUserAction\<close> and the condition of their \<^verbatim>\<open>step\<close> do. But on the first
  frame that is due with a live Cat the second variant throws: started at time 0 with
  no key held, on the frame 3000 it has called \<^verbatim>\<open>ignore()\<close>, and then neither sets
  \<^verbatim>\<open>lastTickTimeStamp\<close> nor asks for the next frame, while the first variant redraws,
  records 3000 and goes on to fire at 6000.
\<close>

theorem part_000_tick_throws:
  "executeUserAction_B (specImported unitAmounts) newGame =
     executeUserAction (specImported unitAmounts) newGame \<and>
   step_B (specImported unitAmounts) (num 3000) newGame =
     Thrown TypeError
       (newGame\<lparr>cat := \<lparr>energy = 49, hunger = 49, mood = 49, alive = True\<rparr>,
          calls := [RequestAnimationFrame, GameTick, CatIgnore]\<rparr>) \<and>
   frames_B (specImported unitAmounts) [num 3000, num 6000] newGame =
     step_B (specImported unitAmounts) (num 3000) newGame \<and>
   lastTickTimeStamp newGame = num 0 \<and>
   lastTickTimeStamp (step (specImported unitAmounts) (num 3000) newGame) = num 3000 \<and>
   calls (step (specImported unitAmounts) (num 3000) newGame) =
     [RequestAnimationFrame, GameTick, CatIgnore, UpdateDisplays, RequestAnimationFrame] \<and>
   tickFrames (specImported unitAmounts) [num 3000, num 6000] newGame = [num 3000, num 6000]"
proof -
  have live: "cat_isAlive (specImported unitAmounts) (cat newGame)"
    by (simp add: specImported_def newGame_def new_Catagotchi_def startRunning_def
        isAlive_def newCat_def)
  have start: "lastTickTimeStamp newGame = num 0" "calls newGame = [RequestAnimationFrame]"
    "cat newGame = newCat" "keyListener newGame = newKeyListener"
    by (simp_all add: specImported_def newGame_def new_Catagotchi_def startRunning_def)
  have due: "due (num 3000) (lastTickTimeStamp newGame)"
    by (simp add: start due_num)
  have nokeys: "heldCalls (specImported unitAmounts) newKeyListener = []"
    "\<And>c. heldActions (specImported unitAmounts) newKeyListener c = c"
    by (simp_all add: heldCalls_def heldActions_def specImported_def isKeyDown_def
        newKeyListener_def)
  have ign: "cat_ignore (specImported unitAmounts) newCat
      = \<lparr>energy = 49, hunger = 49, mood = 49, alive = True\<rparr>"
    by (simp add: specImported_def ignore_def checkDeath_def clamp_def unitAmounts_def
        newCat_def)
  have thrown: "step_B (specImported unitAmounts) (num 3000) newGame =
     Thrown TypeError
       (newGame\<lparr>cat := \<lparr>energy = 49, hunger = 49, mood = 49, alive = True\<rparr>,
          calls := [RequestAnimationFrame, GameTick, CatIgnore]\<rparr>)"
    by (simp add: step_B_throws [OF live due] start nokeys ign)
  have A: "calls (step (specImported unitAmounts) (num 3000) newGame) =
     [RequestAnimationFrame, GameTick, CatIgnore, UpdateDisplays, RequestAnimationFrame]"
    using live due
    by (simp add: step_eq start tickCalls_eq nokeys)
  show ?thesis
    using due
    by (simp add: executeUserAction_B_eq thrown A start step_lastTickTimeStamp
        tickFrames_firesAt due_num)
qed

end
